theory Spec2Isabelle
  imports Complex_Main
begin

section \<open>Simulated annealing for MaxCut: the engine of \<open>simulated_annealing.ipynb\<close>\<close>

text \<open>
  The notebook defines two functions, \<open>temperature_decay(num_steps, graph)\<close> and
  \<open>simulated_annealing(init_temperature, num_steps, graph)\<close>. This theory embeds both.

  Conventions of the embedding:
  \<^item> Python numbers that hold scores, temperatures and probabilities are modelled as
    \<open>real\<close>; rounding of floating-point arithmetic is not modelled. Labels of a solution are
    Python integers, modelled as \<open>int\<close>.
  \<^item> Every exception the code can raise is a value \<open>Inl e\<close>.
  \<^item> The two global random generators (\<open>np.random\<close> and Python's \<open>random\<close>) are modelled by
    the sequence of values each is going to produce from the moment of the call on, together
    with a counter of the draws consumed so far.
  \<^item> \<open>print\<close> and \<open>time.time()\<close> produce no value that the result depends on and are left out.
\<close>

subsection \<open>Data\<close>

datatype error = NameError | ValueError | ZeroDivisionError | IndexError

text \<open>
  A NetworkX graph. The engine itself reads only \<open>graph.number_of_nodes()\<close>; the edges are
  read by the evaluator \<open>obj_maxcut\<close>.
\<close>

record nxgraph =
  number_of_nodes :: nat
  edges :: "(nat \<times> nat \<times> real) list"

text \<open>
  What a call finds around it: the module-level variable \<open>init_temperature\<close> (\<open>None\<close> while
  it is not bound), the values \<open>np.random.randint\<close> and \<open>random.random\<close> are going to draw,
  and the evaluator \<open>obj_maxcut\<close> imported from \<open>util\<close>, which is not part of the notebook and
  is taken as a parameter.
\<close>

record env =
  init_temperature :: "real option"
  np_draws :: "nat \<Rightarrow> nat"
  py_draws :: "nat \<Rightarrow> real"
  obj_maxcut :: "int list \<Rightarrow> nxgraph \<Rightarrow> real"

text \<open>
  The local variables of \<open>temperature_decay\<close> that change in the loop, and three counters:
  the draws taken from each generator and the calls of \<open>obj_maxcut\<close>.
\<close>

record sa_state =
  curr_solution :: "int list"
  curr_score :: real
  scores :: "real list"
  np_pos :: nat
  py_pos :: nat
  obj_calls :: nat

subsection \<open>Library functions\<close>

text \<open>
  \<open>np.random.randint(low, high)\<close> raises \<open>ValueError\<close> when \<open>low >= high\<close> and otherwise
  returns an integer of \<open>[low, high)\<close>. The raw value \<open>raw\<close> of the generator is reduced into
  that interval, so every sequence of admissible results is the image of some sequence of
  raw values.
\<close>

definition randint :: "nat \<Rightarrow> nat \<Rightarrow> nat \<Rightarrow> error + nat" where
  "randint low high raw =
     (if high \<le> low then Inl ValueError else Inr (low + raw mod (high - low)))"

subsection \<open>\<open>temperature_decay\<close>\<close>

text \<open>\<open>[0] * int(graph.number_of_nodes() / 2) + [1] * int(graph.number_of_nodes() / 2)\<close>\<close>

definition init_solution :: "nxgraph \<Rightarrow> int list" where
  "init_solution graph =
     replicate (number_of_nodes graph div 2) 0 @ replicate (number_of_nodes graph div 2) 1"

text \<open>\<open>init_temperature * (1 - (k + 1) / num_steps)\<close>, with the true division of Python 3.\<close>

definition temperature_of :: "real \<Rightarrow> nat \<Rightarrow> int \<Rightarrow> real" where
  "temperature_of t0 k num_steps = t0 * (1 - (real k + 1) / real_of_int num_steps)"

text \<open>
  The first line of the loop body: reading the unbound global raises \<open>NameError\<close>, dividing
  by \<open>num_steps = 0\<close> raises \<open>ZeroDivisionError\<close>.
\<close>

definition temperature :: "env \<Rightarrow> nat \<Rightarrow> int \<Rightarrow> error + real" where
  "temperature e k num_steps =
     (case init_temperature e of
        None \<Rightarrow> Inl NameError
      | Some t0 \<Rightarrow>
          if num_steps = 0 then Inl ZeroDivisionError
          else Inr (temperature_of t0 k num_steps))"

text \<open>
  \<open>new_solution = copy.deepcopy(curr_solution)\<close>, \<open>idx = np.random.randint(0, num_nodes)\<close>,
  \<open>new_solution[idx] = (new_solution[idx] + 1) % 2\<close>. Writing at an index beyond the list
  raises \<open>IndexError\<close>.
\<close>

definition new_solution :: "env \<Rightarrow> nat \<Rightarrow> sa_state \<Rightarrow> error + int list" where
  "new_solution e num_nodes s =
     (case randint 0 num_nodes (np_draws e (np_pos s)) of
        Inl err \<Rightarrow> Inl err
      | Inr idx \<Rightarrow>
          if idx < length (curr_solution s)
          then Inr ((curr_solution s)[idx := (curr_solution s ! idx + 1) mod 2])
          else Inl IndexError)"

text \<open>
  The rest of the loop body, from \<open>new_score = obj_maxcut(new_solution, graph)\<close> on, for the
  temperature \<open>temp\<close> and the candidate \<open>cand\<close> of this step. The literal \<open>1e-6\<close> is
  \<open>1 / 1000000\<close>. The division \<open>- delta_e / (temperature + 1e-6)\<close> is only evaluated in the
  \<open>else\<close> branch; a zero divisor raises \<open>ZeroDivisionError\<close> there. \<open>random.random()\<close> is
  called once, in that branch, after the division and \<open>np.exp\<close>.
\<close>

definition accept_or_reject ::
  "env \<Rightarrow> nxgraph \<Rightarrow> real \<Rightarrow> int list \<Rightarrow> sa_state \<Rightarrow> error + sa_state" where
  "accept_or_reject e graph temp cand s =
     (let new_score = obj_maxcut e cand graph;
          s1 = s\<lparr>scores := scores s @ [new_score],
                 np_pos := np_pos s + 1,
                 obj_calls := obj_calls s + 1\<rparr>;
          delta_e = curr_score s - new_score
      in if delta_e < 0
         then Inr (s1\<lparr>curr_solution := cand, curr_score := new_score\<rparr>)
         else if temp + 1 / 1000000 = 0 then Inl ZeroDivisionError
         else
           let prob = exp (- delta_e / (temp + 1 / 1000000));
               u = py_draws e (py_pos s);
               s2 = s1\<lparr>py_pos := py_pos s + 1\<rparr>
           in if prob > u
              then Inr (s2\<lparr>curr_solution := cand, curr_score := new_score\<rparr>)
              else Inr s2)"

text \<open>One iteration of \<open>for k in range(num_steps)\<close>.\<close>

definition sa_step ::
  "env \<Rightarrow> int \<Rightarrow> nat \<Rightarrow> nxgraph \<Rightarrow> nat \<Rightarrow> sa_state \<Rightarrow> error + sa_state" where
  "sa_step e num_steps num_nodes graph k s =
     (case temperature e k num_steps of
        Inl err \<Rightarrow> Inl err
      | Inr temp \<Rightarrow>
          (case new_solution e num_nodes s of
             Inl err \<Rightarrow> Inl err
           | Inr cand \<Rightarrow> accept_or_reject e graph temp cand s))"

text \<open>The loop over a list of step indices; an exception ends it.\<close>

fun sa_loop ::
  "env \<Rightarrow> int \<Rightarrow> nat \<Rightarrow> nxgraph \<Rightarrow> nat list \<Rightarrow> sa_state \<Rightarrow> error + sa_state" where
  "sa_loop e num_steps num_nodes graph [] s = Inr s"
| "sa_loop e num_steps num_nodes graph (k # ks) s =
     (case sa_step e num_steps num_nodes graph k s of
        Inl err \<Rightarrow> Inl err
      | Inr s' \<Rightarrow> sa_loop e num_steps num_nodes graph ks s')"

text \<open>The state at the loop's entry: the initial solution, its score, the empty trace.\<close>

definition init_state :: "env \<Rightarrow> nxgraph \<Rightarrow> sa_state" where
  "init_state e graph =
     \<lparr>curr_solution = init_solution graph,
      curr_score = obj_maxcut e (init_solution graph) graph,
      scores = [],
      np_pos = 0, py_pos = 0, obj_calls = 1\<rparr>"

text \<open>
  The state after the first \<open>m\<close> iterations; \<open>range(num_steps)\<close> is \<open>[0..<nat num_steps]\<close>,
  empty when \<open>num_steps \<le> 0\<close>. \<open>num_nodes\<close> is \<open>len(init_solution)\<close>.
\<close>

definition state_after :: "env \<Rightarrow> int \<Rightarrow> nxgraph \<Rightarrow> nat \<Rightarrow> error + sa_state" where
  "state_after e num_steps graph m =
     sa_loop e num_steps (length (init_solution graph)) graph [0..<m] (init_state e graph)"

definition final_state :: "env \<Rightarrow> int \<Rightarrow> nxgraph \<Rightarrow> error + sa_state" where
  "final_state e num_steps graph = state_after e num_steps graph (nat num_steps)"

text \<open>\<open>return scores, init_score, curr_score, curr_solution\<close>\<close>

definition temperature_decay ::
  "env \<Rightarrow> int \<Rightarrow> nxgraph \<Rightarrow> error + (real list \<times> real \<times> real \<times> int list)" where
  "temperature_decay e num_steps graph =
     (case final_state e num_steps graph of
        Inl err \<Rightarrow> Inl err
      | Inr s \<Rightarrow>
          Inr (scores s, curr_score (init_state e graph), curr_score s, curr_solution s))"

subsection \<open>\<open>simulated_annealing\<close>\<close>

text \<open>
  The parameter \<open>init_temperature\<close> of the function is \<open>init_temperature_arg\<close> here; the body
  passes only \<open>num_steps\<close> and \<open>graph\<close> on. \<open>return curr_score, curr_solution, scores\<close>.
\<close>

definition simulated_annealing ::
  "env \<Rightarrow> real \<Rightarrow> int \<Rightarrow> nxgraph \<Rightarrow> error + (real \<times> int list \<times> real list)" where
  "simulated_annealing e init_temperature_arg num_steps graph =
     (case temperature_decay e num_steps graph of
        Inl err \<Rightarrow> Inl err
      | Inr (scores', init_score, curr_score', curr_solution') \<Rightarrow>
          Inr (curr_score', curr_solution', scores'))"

subsection \<open>A concrete evaluator and graph\<close>

text \<open>
  Modelled from the spec: \<open>obj_maxcut\<close> of \<open>util\<close>, which the notebook imports and which is
  not among the sources. The spec's evaluator sums, over every edge \<open>(u, v, w)\<close>, \<open>w\<close> if
  \<open>solution[u] != solution[v]\<close> and 0 otherwise. The spec's evaluator requires a solution
  with one label per node and fails fast otherwise; that check is not part of \<open>cut_value\<close>,
  which is applied below only to solutions of the length of the graph's node count (lists
  of four labels on the 4-cycle, the empty list on the empty graph), to run the engine on a
  concrete graph. The theorems about the engine hold for every evaluator.
\<close>

definition cut_value :: "int list \<Rightarrow> nxgraph \<Rightarrow> real" where
  "cut_value solution graph =
     sum_list (map (\<lambda>(u, v, w). if solution ! u \<noteq> solution ! v then w else 0) (edges graph))"

text \<open>The 4-cycle with unit weights.\<close>

definition cycle4 :: nxgraph where
  "cycle4 = \<lparr>number_of_nodes = 4, edges = [(0, 1, 1), (1, 2, 1), (2, 3, 1), (3, 0, 1)]\<rparr>"

text \<open>The path on three nodes, with unit weights.\<close>

definition path3 :: nxgraph where
  "path3 = \<lparr>number_of_nodes = 3, edges = [(0, 1, 1), (1, 2, 1)]\<rparr>"

text \<open>
  An environment in which the module-level \<open>init_temperature\<close> is 4, as in the notebook's
  last cell, the \<open>i\<close>-th call of \<open>randint\<close> returns \<open>draws i\<close> (reduced into the interval)
  and \<open>random.random()\<close> keeps returning \<open>u\<close>.
\<close>

definition demo_env :: "(nat \<Rightarrow> nat) \<Rightarrow> real \<Rightarrow> env" where
  "demo_env draws u =
     \<lparr>init_temperature = Some 4, np_draws = draws, py_draws = (\<lambda>_. u),
      obj_maxcut = cut_value\<rparr>"

text \<open>A graph without nodes.\<close>

definition empty_graph :: nxgraph where
  "empty_graph = \<lparr>number_of_nodes = 0, edges = []\<rparr>"

text \<open>
  A state of the loop on the 4-cycle after one accepted tie: node 0 has been flipped, the
  score is still 2.
\<close>

definition tie_state :: sa_state where
  "tie_state =
     \<lparr>curr_solution = [1, 0, 1, 1], curr_score = 2, scores = [2], np_pos = 1, py_pos = 1,
      obj_calls = 2\<rparr>"

section \<open>Properties\<close>

subsection \<open>Auxiliary facts\<close>

lemma exp_neg_le_half: "1 \<le> x \<Longrightarrow> exp (- x) \<le> (1 / 2 :: real)"
proof -
  assume a: "1 \<le> x"
  have "2 \<le> 1 + x" using a by simp
  also have "\<dots> \<le> exp x" by (rule exp_ge_add_one_self)
  finally have "2 \<le> exp x" .
  then have "inverse (exp x) \<le> inverse 2" by (intro le_imp_inverse_le) simp_all
  then show ?thesis by (simp add: exp_minus)
qed

lemma exp_tiny: "exp (- (2000000::real)) \<le> 1 / 2"
  by (rule exp_neg_le_half) simp

lemma sa_loop_append:
  "sa_loop e n nn g (xs @ ys) s =
     (case sa_loop e n nn g xs s of Inl err \<Rightarrow> Inl err | Inr s' \<Rightarrow> sa_loop e n nn g ys s')"
  by (induction xs arbitrary: s) (auto split: sum.splits)

lemma state_after_0: "state_after e n g 0 = Inr (init_state e g)"
  by (simp add: state_after_def)

lemma state_after_Suc:
  "state_after e n g (Suc m) =
     (case state_after e n g m of
        Inl err \<Rightarrow> Inl err
      | Inr s \<Rightarrow> sa_step e n (length (init_solution g)) g m s)"
  by (simp add: state_after_def sa_loop_append split: sum.splits)

lemma accept_or_reject_cases:
  assumes "accept_or_reject e g temp cand s = Inr s'"
  shows "scores s' = scores s @ [obj_maxcut e cand g]"
    and "np_pos s' = Suc (np_pos s)"
    and "obj_calls s' = Suc (obj_calls s)"
    and "py_pos s' = py_pos s \<or> py_pos s' = Suc (py_pos s)"
    and "(curr_solution s' = cand \<and> curr_score s' = obj_maxcut e cand g) \<or>
         (curr_solution s' = curr_solution s \<and> curr_score s' = curr_score s)"
  using assms by (auto simp: accept_or_reject_def Let_def split: if_splits)

lemma new_solution_length:
  "new_solution e nn s = Inr cand \<Longrightarrow> length cand = length (curr_solution s)"
  by (auto simp: new_solution_def split: sum.splits if_splits)

lemma sa_step_Inr:
  assumes "sa_step e n nn g k s = Inr s'"
  obtains temp cand where "temperature e k n = Inr temp" "new_solution e nn s = Inr cand"
    "accept_or_reject e g temp cand s = Inr s'"
  using assms by (auto simp: sa_step_def split: sum.splits)

lemma sa_loop_NameError:
  "init_temperature e = None \<Longrightarrow> ks \<noteq> [] \<Longrightarrow> sa_loop e n nn g ks s = Inl NameError"
  by (cases ks) (simp_all add: sa_step_def temperature_def)

lemma init_solution_cycle4: "init_solution cycle4 = [0, 0, 1, 1]"
  by code_simp

lemma cut_value_cycle4:
  "cut_value [a, b, c, d] cycle4 =
     (if a \<noteq> b then 1 else 0) + (if b \<noteq> c then 1 else 0) + (if c \<noteq> d then 1 else 0)
       + (if d \<noteq> a then 1 else 0)"
  by (simp add: cut_value_def cycle4_def numeral_3_eq_3 numeral_2_eq_2)

lemma init_state_cycle4:
  "init_state (demo_env d u) cycle4 =
     \<lparr>curr_solution = [0, 0, 1, 1], curr_score = 2, scores = [], np_pos = 0, py_pos = 0,
      obj_calls = 1\<rparr>"
  by (simp add: init_state_def init_solution_cycle4 demo_env_def cut_value_cycle4)

subsection \<open>The acceptance rule\<close>

text \<open>
  Claim C1. With \<open>delta = curr_score - new_score\<close>: if \<open>delta < 0\<close> the candidate is accepted
  without a random draw (whatever the temperature); otherwise, where the divisor
  \<open>temperature + 1e-6\<close> is not zero, \<open>prob = exp (- delta / (temperature + 1e-6))\<close> is compared
  with one fresh draw \<open>u\<close> and the candidate is accepted exactly when \<open>prob > u\<close>, the current
  solution and score staying as they were otherwise; in a tie \<open>prob = 1\<close>, so with \<open>u < 1\<close>
  (\<open>random.random()\<close> draws from \<open>[0, 1)\<close>) the candidate is always accepted.
\<close>

theorem acceptance_rule:
  "(curr_score s - obj_maxcut e cand graph < 0 \<longrightarrow>
      (\<exists>s'. accept_or_reject e graph temp cand s = Inr s' \<and>
            curr_solution s' = cand \<and> curr_score s' = obj_maxcut e cand graph \<and>
            py_pos s' = py_pos s)) \<and>
   (0 \<le> curr_score s - obj_maxcut e cand graph \<and> temp + 1 / 1000000 \<noteq> 0 \<longrightarrow>
      (\<exists>s'. accept_or_reject e graph temp cand s = Inr s' \<and>
            py_pos s' = py_pos s + 1 \<and>
            (if exp (- (curr_score s - obj_maxcut e cand graph) / (temp + 1 / 1000000))
                  > py_draws e (py_pos s)
             then curr_solution s' = cand \<and> curr_score s' = obj_maxcut e cand graph
             else curr_solution s' = curr_solution s \<and> curr_score s' = curr_score s))) \<and>
   (curr_score s = obj_maxcut e cand graph \<and> temp + 1 / 1000000 \<noteq> 0 \<and>
    py_draws e (py_pos s) < 1 \<longrightarrow>
      (\<exists>s'. accept_or_reject e graph temp cand s = Inr s' \<and>
            curr_solution s' = cand \<and> curr_score s' = obj_maxcut e cand graph))"
  by (simp add: accept_or_reject_def Let_def)

text \<open>
  On the 4-cycle at temperature 0, from the solution \<open>[1, 0, 1, 1]\<close> of score 2 and with the
  draw \<open>u = 1/2\<close>: the improving candidate \<open>[1, 0, 1, 0]\<close> is accepted without a draw, the worse
  candidate \<open>[1, 1, 1, 1]\<close> is rejected after a draw, the tie \<open>[0, 0, 1, 1]\<close> is accepted.
\<close>

theorem acceptance_rule_witness:
  "(curr_score tie_state - obj_maxcut (demo_env (\<lambda>i. i) (1/2)) [1, 0, 1, 0] cycle4 < 0 \<and>
    (\<exists>s'. accept_or_reject (demo_env (\<lambda>i. i) (1/2)) cycle4 0 [1, 0, 1, 0] tie_state = Inr s' \<and>
          curr_solution s' = [1, 0, 1, 0] \<and> curr_score s' = 4 \<and> py_pos s' = py_pos tie_state)) \<and>
   (0 \<le> curr_score tie_state - obj_maxcut (demo_env (\<lambda>i. i) (1/2)) [1, 1, 1, 1] cycle4 \<and>
    (0::real) + 1 / 1000000 \<noteq> 0 \<and>
    (\<exists>s'. accept_or_reject (demo_env (\<lambda>i. i) (1/2)) cycle4 0 [1, 1, 1, 1] tie_state = Inr s' \<and>
          py_pos s' = py_pos tie_state + 1 \<and> curr_solution s' = [1, 0, 1, 1] \<and>
          curr_score s' = 2)) \<and>
   (curr_score tie_state = obj_maxcut (demo_env (\<lambda>i. i) (1/2)) [0, 0, 1, 1] cycle4 \<and>
    py_draws (demo_env (\<lambda>i. i) (1/2)) (py_pos tie_state) < 1 \<and>
    (\<exists>s'. accept_or_reject (demo_env (\<lambda>i. i) (1/2)) cycle4 0 [0, 0, 1, 1] tie_state = Inr s' \<and>
          curr_solution s' = [0, 0, 1, 1] \<and> curr_score s' = 2))"
  using acceptance_rule [of tie_state "demo_env (\<lambda>i. i) (1/2)" "[1, 0, 1, 0]" cycle4 0]
    acceptance_rule [of tie_state "demo_env (\<lambda>i. i) (1/2)" "[1, 1, 1, 1]" cycle4 0]
    acceptance_rule [of tie_state "demo_env (\<lambda>i. i) (1/2)" "[0, 0, 1, 1]" cycle4 0]
    exp_tiny
  by (simp add: tie_state_def demo_env_def cut_value_cycle4)

subsection \<open>The unused parameter of \<open>simulated_annealing\<close>\<close>

text \<open>
  Claim C10. The loop reads the module-level \<open>init_temperature\<close>, not the parameter of
  \<open>simulated_annealing\<close>: with the same global, the same draws and the same other arguments,
  any two values of the parameter give the same result; and where the global is not bound
  and at least one step runs, the call raises \<open>NameError\<close> whatever the parameter is.
\<close>

theorem init_temperature_argument_unused:
  "simulated_annealing e a1 num_steps graph = simulated_annealing e a2 num_steps graph \<and>
   (init_temperature e = None \<and> 0 < num_steps \<longrightarrow>
      simulated_annealing e a1 num_steps graph = Inl NameError)"
  by (simp add: simulated_annealing_def temperature_decay_def final_state_def state_after_def
      sa_loop_NameError)

theorem init_temperature_argument_unused_witness:
  "simulated_annealing (demo_env (\<lambda>i. i) (1/2)) 4 1 cycle4
     = simulated_annealing (demo_env (\<lambda>i. i) (1/2)) 1000 1 cycle4 \<and>
   init_temperature ((demo_env (\<lambda>i. i) (1/2))\<lparr>init_temperature := None\<rparr>) = None \<and>
   (0::int) < 1 \<and>
   simulated_annealing ((demo_env (\<lambda>i. i) (1/2))\<lparr>init_temperature := None\<rparr>) 4 1 cycle4
     = Inl NameError"
  using init_temperature_argument_unused [of "demo_env (\<lambda>i. i) (1/2)" 4 1 cycle4 1000]
    init_temperature_argument_unused
      [of "(demo_env (\<lambda>i. i) (1/2))\<lparr>init_temperature := None\<rparr>" 4 1 cycle4 4]
  by simp

subsection \<open>The temperature schedule\<close>

lemma temperature_of_last:
  "0 < num_steps \<Longrightarrow> temperature_of t0 (nat num_steps - 1) num_steps = 0"
proof -
  assume a: "0 < num_steps"
  then have "real (nat num_steps - 1) + 1 = real_of_int num_steps"
    by (simp add: of_nat_diff)
  with a show ?thesis by (simp add: temperature_of_def)
qed

lemma accept_or_reject_no_zero_division:
  "temp + 1 / 1000000 \<noteq> 0 \<Longrightarrow> accept_or_reject e g temp cand s \<noteq> Inl ZeroDivisionError"
  by (simp add: accept_or_reject_def Let_def)

lemma new_solution_no_zero_division: "new_solution e nn s \<noteq> Inl ZeroDivisionError"
  by (simp add: new_solution_def randint_def split: sum.splits)

text \<open>
  Claim C2. For a positive \<open>num_steps\<close> and a bound module-level \<open>init_temperature = t0\<close>, the
  temperature of step \<open>k\<close> is \<open>t0 * (1 - (k + 1) / num_steps)\<close>; at \<open>k = 0\<close> this is
  \<open>t0 * (1 - 1 / num_steps)\<close>, at the last step \<open>k = num_steps - 1\<close> it is 0, and the last
  step raises no \<open>ZeroDivisionError\<close>, from whatever state it starts: the divisor of the
  acceptance formula is \<open>0 + 1e-6\<close>.
\<close>

theorem temperature_schedule:
  "0 < num_steps \<and> init_temperature e = Some t0 \<longrightarrow>
     (\<forall>k. temperature e k num_steps
            = Inr (t0 * (1 - (real k + 1) / real_of_int num_steps))) \<and>
     temperature e 0 num_steps = Inr (t0 * (1 - 1 / real_of_int num_steps)) \<and>
     temperature e (nat num_steps - 1) num_steps = Inr 0 \<and>
     sa_step e num_steps num_nodes graph (nat num_steps - 1) s \<noteq> Inl ZeroDivisionError"
proof (intro impI, elim conjE)
  assume pos: "0 < num_steps" and t0: "init_temperature e = Some t0"
  have all: "\<forall>k. temperature e k num_steps
               = Inr (t0 * (1 - (real k + 1) / real_of_int num_steps))"
    using pos t0 by (simp add: temperature_def temperature_of_def)
  have first: "temperature e 0 num_steps = Inr (t0 * (1 - 1 / real_of_int num_steps))"
    using all by simp
  have last: "temperature e (nat num_steps - 1) num_steps = Inr 0"
    using pos t0 temperature_of_last [OF pos, of t0] by (simp add: temperature_def)
  have "sa_step e num_steps num_nodes graph (nat num_steps - 1) s \<noteq> Inl ZeroDivisionError"
    using last new_solution_no_zero_division [of e num_nodes s]
      accept_or_reject_no_zero_division [of 0 e graph _ s]
    by (auto simp: sa_step_def split: sum.splits)
  with all first last show "(\<forall>k. temperature e k num_steps
            = Inr (t0 * (1 - (real k + 1) / real_of_int num_steps))) \<and>
     temperature e 0 num_steps = Inr (t0 * (1 - 1 / real_of_int num_steps)) \<and>
     temperature e (nat num_steps - 1) num_steps = Inr 0 \<and>
     sa_step e num_steps num_nodes graph (nat num_steps - 1) s \<noteq> Inl ZeroDivisionError"
    by blast
qed

text \<open>
  The second and last step of a run of two steps on the 4-cycle, from \<open>tie_state\<close>: the
  generator returns index 1, the candidate \<open>[1, 1, 1, 1]\<close> has score 0 and is rejected.
\<close>

lemma new_solution_tie_state:
  "new_solution (demo_env (\<lambda>i. i) u) 4 tie_state = Inr [1, 1, 1, 1]"
  by (simp add: new_solution_def randint_def demo_env_def tie_state_def)

lemma temperature_demo_last: "temperature (demo_env d u) (Suc 0) 2 = Inr 0"
  by (simp add: temperature_def temperature_of_def demo_env_def)

lemma accept_or_reject_tie_state:
  "accept_or_reject (demo_env (\<lambda>i. i) (1/2)) cycle4 0 [1, 1, 1, 1] tie_state =
     Inr \<lparr>curr_solution = [1, 0, 1, 1], curr_score = 2, scores = [2, 0], np_pos = 2,
          py_pos = 2, obj_calls = 3\<rparr>"
proof -
  have "obj_maxcut (demo_env (\<lambda>i. i) (1/2)) [1, 1, 1, 1] cycle4 = 0"
    by (simp add: demo_env_def cut_value_cycle4)
  then show ?thesis
    using exp_tiny by (simp add: accept_or_reject_def Let_def tie_state_def demo_env_def)
qed

lemma sa_step_tie_state:
  "sa_step (demo_env (\<lambda>i. i) (1/2)) 2 4 cycle4 (Suc 0) tie_state =
     Inr \<lparr>curr_solution = [1, 0, 1, 1], curr_score = 2, scores = [2, 0], np_pos = 2,
          py_pos = 2, obj_calls = 3\<rparr>"
  by (simp add: sa_step_def temperature_demo_last new_solution_tie_state
      accept_or_reject_tie_state)

theorem temperature_schedule_witness:
  "(0::int) < 2 \<and> init_temperature (demo_env (\<lambda>i. i) (1/2)) = Some 4 \<and>
   temperature (demo_env (\<lambda>i. i) (1/2)) 0 2 = Inr 2 \<and>
   temperature (demo_env (\<lambda>i. i) (1/2)) 1 2 = Inr 0 \<and>
   sa_step (demo_env (\<lambda>i. i) (1/2)) 2 4 cycle4 1 tie_state \<noteq> Inl ZeroDivisionError"
  using temperature_schedule [of 2 "demo_env (\<lambda>i. i) (1/2)" 4 4 cycle4 tie_state]
  by (simp add: demo_env_def)

subsection \<open>The initial solution\<close>

lemma length_init_solution: "length (init_solution g) = 2 * (number_of_nodes g div 2)"
  by (simp add: init_solution_def)

lemma set_init_solution: "set (init_solution g) \<subseteq> {0, 1}"
  by (auto simp: init_solution_def)

text \<open>
  Claim C3. The claim gives the initial solution \<open>\<lfloor>N/2\<rfloor>\<close> zeros followed by \<open>\<lceil>N/2\<rceil>\<close> ones,
  of length \<open>N\<close>. The code builds \<open>int(N / 2)\<close> zeros and \<open>int(N / 2)\<close> ones: for the graph
  \<open>path3\<close> with three nodes the initial solution is \<open>[0, 1]\<close>, of length 2, and the third node
  has no label.
\<close>

theorem init_solution_odd:
  "number_of_nodes path3 = 3 \<and> init_solution path3 = [0, 1] \<and>
   length (init_solution path3) \<noteq> number_of_nodes path3"
  by (simp add: init_solution_def path3_def)

subsection \<open>A rejected step\<close>

text \<open>
  Claim C7. In a step whose candidate is not better (\<open>delta \<ge> 0\<close>) and whose probability is
  at most the draw (\<open>prob \<le> u\<close>), the step returns with \<open>curr_solution\<close> and \<open>curr_score\<close> as
  they were at its entry, one more draw taken from \<open>random.random()\<close> and one more call of
  \<open>obj_maxcut\<close>; the candidate's score is appended to the trace all the same.
\<close>

theorem rejected_step_frame:
  assumes "temperature e k num_steps = Inr temp"
    and "new_solution e num_nodes s = Inr cand"
    and "0 \<le> curr_score s - obj_maxcut e cand graph"
    and "temp + 1 / 1000000 \<noteq> 0"
    and "exp (- (curr_score s - obj_maxcut e cand graph) / (temp + 1 / 1000000))
           \<le> py_draws e (py_pos s)"
  shows "\<exists>s'. sa_step e num_steps num_nodes graph k s = Inr s' \<and>
           curr_solution s' = curr_solution s \<and> curr_score s' = curr_score s \<and>
           py_pos s' = py_pos s + 1 \<and> obj_calls s' = obj_calls s + 1 \<and>
           scores s' = scores s @ [obj_maxcut e cand graph]"
  using assms by (simp add: sa_step_def accept_or_reject_def Let_def)

theorem rejected_step_frame_witness:
  "temperature (demo_env (\<lambda>i. i) (1/2)) (Suc 0) 2 = Inr 0 \<and>
   new_solution (demo_env (\<lambda>i. i) (1/2)) 4 tie_state = Inr [1, 1, 1, 1] \<and>
   0 \<le> curr_score tie_state - obj_maxcut (demo_env (\<lambda>i. i) (1/2)) [1, 1, 1, 1] cycle4 \<and>
   exp (- (curr_score tie_state - obj_maxcut (demo_env (\<lambda>i. i) (1/2)) [1, 1, 1, 1] cycle4)
          / (0 + 1 / 1000000))
     \<le> py_draws (demo_env (\<lambda>i. i) (1/2)) (py_pos tie_state) \<and>
   (\<exists>s'. sa_step (demo_env (\<lambda>i. i) (1/2)) 2 4 cycle4 (Suc 0) tie_state = Inr s' \<and>
         curr_solution s' = [1, 0, 1, 1] \<and> curr_score s' = 2 \<and>
         py_pos s' = py_pos tie_state + 1 \<and> obj_calls s' = obj_calls tie_state + 1 \<and>
         scores s' = [2, 0])"
proof -
  let ?e = "demo_env (\<lambda>i. i) (1/2)"
  have obj: "obj_maxcut ?e [1, 1, 1, 1] cycle4 = 0"
    by (simp add: demo_env_def cut_value_cycle4)
  have h1: "temperature ?e (Suc 0) 2 = Inr 0" by (rule temperature_demo_last)
  have h2: "new_solution ?e 4 tie_state = Inr [1, 1, 1, 1]" by (rule new_solution_tie_state)
  have h3: "0 \<le> curr_score tie_state - obj_maxcut ?e [1, 1, 1, 1] cycle4"
    by (simp add: obj tie_state_def)
  have h4: "(0::real) + 1 / 1000000 \<noteq> 0" by simp
  have h5: "exp (- (curr_score tie_state - obj_maxcut ?e [1, 1, 1, 1] cycle4)
                 / (0 + 1 / 1000000)) \<le> py_draws ?e (py_pos tie_state)"
    using exp_tiny by (simp add: obj tie_state_def) (simp add: demo_env_def)
  from rejected_step_frame [OF h1 h2 h3 h4 h5]
  have "\<exists>s'. sa_step ?e 2 4 cycle4 (Suc 0) tie_state = Inr s' \<and>
         curr_solution s' = [1, 0, 1, 1] \<and> curr_score s' = 2 \<and>
         py_pos s' = py_pos tie_state + 1 \<and> obj_calls s' = obj_calls tie_state + 1 \<and>
         scores s' = [2, 0]"
    by (simp add: obj tie_state_def)
  with h1 h2 h3 h5 show ?thesis by blast
qed

subsection \<open>Invariants of the loop\<close>

lemma flip_label_neq: "(x + 1) mod 2 \<noteq> (x::int)"
  by presburger

lemma flip_label_range: "(x + 1) mod 2 \<in> {0, 1::int}"
  by auto

lemma randint_less: "randint 0 n raw = Inr idx \<Longrightarrow> idx < n"
  by (auto simp: randint_def split: if_splits)

lemma new_solution_Inr:
  assumes "new_solution e nn s = Inr cand"
  obtains idx where "idx < nn" "idx < length (curr_solution s)"
    "cand = (curr_solution s)[idx := (curr_solution s ! idx + 1) mod 2]"
  using assms by (auto simp: new_solution_def split: sum.splits if_splits dest: randint_less)

lemma new_solution_total:
  "0 < length (curr_solution s) \<Longrightarrow> \<exists>cand. new_solution e (length (curr_solution s)) s = Inr cand"
  by (simp add: new_solution_def randint_def)

lemma single_flip_unique:
  assumes "idx < length xs"
  shows "\<exists>!i. i < length xs \<and> xs[idx := (xs ! idx + 1) mod 2] ! i \<noteq> (xs ! i :: int)"
proof (rule ex1I [of _ idx])
  show "idx < length xs \<and> xs[idx := (xs ! idx + 1) mod 2] ! idx \<noteq> xs ! idx"
    using assms flip_label_neq [of "xs ! idx"] by simp
next
  fix i assume "i < length xs \<and> xs[idx := (xs ! idx + 1) mod 2] ! i \<noteq> xs ! i"
  then show "i = idx" by (cases "i = idx") simp_all
qed

lemma new_solution_labels:
  assumes "new_solution e nn s = Inr cand" and "set (curr_solution s) \<subseteq> {0, 1}"
  shows "set cand \<subseteq> {0, 1}"
proof -
  from assms(1) obtain idx where
    c: "cand = (curr_solution s)[idx := (curr_solution s ! idx + 1) mod 2]"
    by (rule new_solution_Inr)
  have "set cand \<subseteq> insert ((curr_solution s ! idx + 1) mod 2) (set (curr_solution s))"
    unfolding c by (rule set_update_subset_insert)
  with assms(2) flip_label_range [of "curr_solution s ! idx"] show ?thesis by auto
qed

lemma sa_step_labels:
  assumes "sa_step e n nn g k s = Inr s'" and "set (curr_solution s) \<subseteq> {0, 1}"
  shows "set (curr_solution s') \<subseteq> {0, 1}"
proof -
  from assms(1) obtain temp cand where c: "new_solution e nn s = Inr cand"
    and a: "accept_or_reject e g temp cand s = Inr s'"
    by (rule sa_step_Inr)
  from accept_or_reject_cases(5) [OF a] new_solution_labels [OF c assms(2)] assms(2)
  show ?thesis by auto
qed

lemma sa_step_length:
  assumes "sa_step e n nn g k s = Inr s'"
  shows "length (curr_solution s') = length (curr_solution s)"
proof -
  from assms(1) obtain temp cand where c: "new_solution e nn s = Inr cand"
    and a: "accept_or_reject e g temp cand s = Inr s'"
    by (rule sa_step_Inr)
  from accept_or_reject_cases(5) [OF a] new_solution_length [OF c]
  show ?thesis by auto
qed

lemma sa_step_score:
  assumes "sa_step e n nn g k s = Inr s'" and "curr_score s = obj_maxcut e (curr_solution s) g"
  shows "curr_score s' = obj_maxcut e (curr_solution s') g"
proof -
  from assms(1) obtain temp cand where
    a: "accept_or_reject e g temp cand s = Inr s'"
    by (rule sa_step_Inr)
  from accept_or_reject_cases(5) [OF a] assms(2) show ?thesis by auto
qed

lemma sa_step_counts:
  assumes "sa_step e n nn g k s = Inr s'"
  shows "length (scores s') = Suc (length (scores s))"
    and "np_pos s' = Suc (np_pos s)"
    and "obj_calls s' = Suc (obj_calls s)"
    and "py_pos s' \<le> Suc (py_pos s)" and "py_pos s \<le> py_pos s'"
proof -
  from assms(1) obtain temp cand where
    a: "accept_or_reject e g temp cand s = Inr s'"
    by (rule sa_step_Inr)
  from accept_or_reject_cases(1) [OF a] show "length (scores s') = Suc (length (scores s))"
    by simp
  from accept_or_reject_cases(2) [OF a] show "np_pos s' = Suc (np_pos s)" .
  from accept_or_reject_cases(3) [OF a] show "obj_calls s' = Suc (obj_calls s)" .
  from accept_or_reject_cases(4) [OF a] show "py_pos s' \<le> Suc (py_pos s)" by auto
  from accept_or_reject_cases(4) [OF a] show "py_pos s \<le> py_pos s'" by auto
qed

text \<open>
  After any number \<open>m\<close> of completed iterations: the labels are 0 or 1, the solution has the
  length of the initial one, the score is the evaluator's value of the solution, the trace
  has \<open>m\<close> entries, \<open>randint\<close> was called \<open>m\<close> times, \<open>obj_maxcut\<close> \<open>m + 1\<close> times and
  \<open>random.random\<close> at most \<open>m\<close> times.
\<close>

lemma state_after_invariant:
  "state_after e n g m = Inr s \<Longrightarrow>
     set (curr_solution s) \<subseteq> {0, 1} \<and>
     length (curr_solution s) = length (init_solution g) \<and>
     curr_score s = obj_maxcut e (curr_solution s) g \<and>
     length (scores s) = m \<and> np_pos s = m \<and> obj_calls s = Suc m \<and> py_pos s \<le> m"
proof (induction m arbitrary: s)
  case 0
  then show ?case
    using set_init_solution [of g] by (auto simp: state_after_0 init_state_def)
next
  case (Suc m)
  from Suc.prems obtain s0 where s0: "state_after e n g m = Inr s0"
    and st: "sa_step e n (length (init_solution g)) g m s0 = Inr s"
    by (auto simp: state_after_Suc split: sum.splits)
  note ih = Suc.IH [OF s0]
  from ih sa_step_labels [OF st] sa_step_length [OF st] sa_step_score [OF st]
    sa_step_counts(1-4) [OF st]
  show ?case by simp
qed

subsection \<open>A run of two steps on the 4-cycle\<close>

lemma length_init_solution_cycle4: "length (init_solution cycle4) = 4"
  by (simp add: init_solution_cycle4)

lemma sa_step_init_cycle4:
  "sa_step (demo_env (\<lambda>i. i) (1/2)) 2 4 cycle4 0 (init_state (demo_env (\<lambda>i. i) (1/2)) cycle4)
     = Inr tie_state"
proof -
  let ?e = "demo_env (\<lambda>i. i) (1/2)"
  have t: "temperature ?e 0 2 = Inr 2"
    by (simp add: temperature_def temperature_of_def demo_env_def)
  have c: "new_solution ?e 4 (init_state ?e cycle4) = Inr [1, 0, 1, 1]"
    by (simp add: init_state_cycle4) (simp add: new_solution_def randint_def demo_env_def)
  have o: "obj_maxcut ?e [1, 0, 1, 1] cycle4 = 2"
    by (simp add: demo_env_def cut_value_cycle4)
  have a: "accept_or_reject ?e cycle4 2 [1, 0, 1, 1] (init_state ?e cycle4) = Inr tie_state"
    by (simp add: accept_or_reject_def Let_def o init_state_cycle4 tie_state_def)
      (simp add: demo_env_def)
  show ?thesis
    by (simp add: sa_step_def t c a)
qed

lemma state_after_1_cycle4:
  "state_after (demo_env (\<lambda>i. i) (1/2)) 2 cycle4 (Suc 0) = Inr tie_state"
  by (simp only: state_after_Suc state_after_0 sum.case length_init_solution_cycle4
      sa_step_init_cycle4)

lemma state_after_2_cycle4:
  "state_after (demo_env (\<lambda>i. i) (1/2)) 2 cycle4 (Suc (Suc 0)) =
     Inr \<lparr>curr_solution = [1, 0, 1, 1], curr_score = 2, scores = [2, 0], np_pos = 2,
          py_pos = 2, obj_calls = 3\<rparr>"
  by (subst state_after_Suc)
    (simp only: state_after_1_cycle4 sum.case length_init_solution_cycle4 sa_step_tie_state)

lemma temperature_decay_cycle4:
  "temperature_decay (demo_env (\<lambda>i. i) (1/2)) 2 cycle4 = Inr ([2, 0], 2, 2, [1, 0, 1, 1])"
proof -
  have "nat 2 = Suc (Suc 0)" by simp
  then show ?thesis
    by (simp only: temperature_decay_def final_state_def state_after_2_cycle4 sum.case)
      (simp add: init_state_cycle4)
qed

lemma simulated_annealing_cycle4:
  "simulated_annealing (demo_env (\<lambda>i. i) (1/2)) a 2 cycle4 = Inr (2, [1, 0, 1, 1], [2, 0])"
  by (simp add: simulated_annealing_def temperature_decay_cycle4)

subsection \<open>The candidate of a step\<close>

text \<open>
  Claim C5. The candidate of a step is the current solution with the label at one index
  replaced by \<open>(x + 1) % 2\<close>: it has the length of the current solution and differs from it
  in exactly one position, and its labels are 0 or 1 when those of the current solution are.
  A step whose solution is not empty has a candidate. After any number of iterations every
  label of the current solution is 0 or 1.
\<close>

theorem single_flip_candidate:
  "(new_solution e num_nodes s = Inr cand \<longrightarrow>
      length cand = length (curr_solution s) \<and>
      (\<exists>!i. i < length cand \<and> cand ! i \<noteq> curr_solution s ! i) \<and>
      (set (curr_solution s) \<subseteq> {0, 1} \<longrightarrow> set cand \<subseteq> {0, 1})) \<and>
   (0 < length (curr_solution s) \<longrightarrow>
      (\<exists>c. new_solution e (length (curr_solution s)) s = Inr c)) \<and>
   (state_after e num_steps graph m = Inr t \<longrightarrow> set (curr_solution t) \<subseteq> {0, 1})"
proof (intro conjI impI)
  assume c: "new_solution e num_nodes s = Inr cand"
  then obtain idx where idx: "idx < length (curr_solution s)"
    and eq: "cand = (curr_solution s)[idx := (curr_solution s ! idx + 1) mod 2]"
    by (rule new_solution_Inr)
  show "length cand = length (curr_solution s)" by (simp add: eq)
  show "\<exists>!i. i < length cand \<and> cand ! i \<noteq> curr_solution s ! i"
    using single_flip_unique [OF idx] by (simp add: eq)
  assume "set (curr_solution s) \<subseteq> {0, 1}"
  with c show "set cand \<subseteq> {0, 1}" by (rule new_solution_labels)
next
  assume "0 < length (curr_solution s)"
  then show "\<exists>c. new_solution e (length (curr_solution s)) s = Inr c"
    by (rule new_solution_total)
next
  assume "state_after e num_steps graph m = Inr t"
  from state_after_invariant [OF this] show "set (curr_solution t) \<subseteq> {0, 1}" by simp
qed

theorem single_flip_candidate_witness:
  "new_solution (demo_env (\<lambda>i. i) (1/2)) 4 tie_state = Inr [1, 1, 1, 1] \<and>
   set (curr_solution tie_state) \<subseteq> {0, 1} \<and>
   0 < length (curr_solution tie_state) \<and>
   state_after (demo_env (\<lambda>i. i) (1/2)) 2 cycle4 (Suc 0) = Inr tie_state \<and>
   length [1, 1, 1, 1 :: int] = length (curr_solution tie_state) \<and>
   (\<exists>!i. i < length [1, 1, 1, 1 :: int] \<and> [1, 1, 1, 1] ! i \<noteq> curr_solution tie_state ! i) \<and>
   set [1, 1, 1, 1] \<subseteq> {0, 1 :: int} \<and>
   (\<exists>c. new_solution (demo_env (\<lambda>i. i) (1/2)) (length (curr_solution tie_state)) tie_state
          = Inr c)"
proof -
  have l: "set (curr_solution tie_state) \<subseteq> {0, 1}" "0 < length (curr_solution tie_state)"
    by (simp_all add: tie_state_def)
  note inst = single_flip_candidate [of "demo_env (\<lambda>i. i) (1/2)" 4 tie_state "[1, 1, 1, 1]" 2
      cycle4 "Suc 0" tie_state]
  have a: "length [1, 1, 1, 1 :: int] = length (curr_solution tie_state) \<and>
    (\<exists>!i. i < length [1, 1, 1, 1 :: int] \<and> [1, 1, 1, 1] ! i \<noteq> curr_solution tie_state ! i) \<and>
    set [1, 1, 1, 1] \<subseteq> {0, 1 :: int}"
    using inst new_solution_tie_state [of "1/2"] l(1) by blast
  have b: "\<exists>c. new_solution (demo_env (\<lambda>i. i) (1/2)) (length (curr_solution tie_state))
      tie_state = Inr c"
    using inst l(2) by blast
  show ?thesis
    using a b new_solution_tie_state [of "1/2"] l state_after_1_cycle4 by blast
qed

subsection \<open>The trace\<close>

lemma simulated_annealing_Inr:
  assumes "simulated_annealing e a n g = Inr (score, solution, trace)"
  obtains s where "state_after e n g (nat n) = Inr s" "score = curr_score s"
    "solution = curr_solution s" "trace = scores s"
  using assms
  by (auto simp: simulated_annealing_def temperature_decay_def final_state_def split: sum.splits)

text \<open>
  Claim C6. Every step that returns has appended the score of its candidate to the trace,
  whether it accepted the candidate or not; so a run that completes returns a trace with one
  entry per iteration of \<open>range(num_steps)\<close>: \<open>len(trace) = num_steps\<close> for \<open>num_steps \<ge> 0\<close>
  (and an empty trace for a negative \<open>num_steps\<close>, whose range is empty).
\<close>

theorem trace_length:
  "(sa_step e num_steps num_nodes graph k s = Inr s' \<longrightarrow>
      (\<exists>cand. new_solution e num_nodes s = Inr cand \<and>
              scores s' = scores s @ [obj_maxcut e cand graph])) \<and>
   (simulated_annealing e a num_steps graph = Inr (score, solution, trace) \<longrightarrow>
      length trace = nat num_steps \<and> (0 \<le> num_steps \<longrightarrow> int (length trace) = num_steps))"
proof (intro conjI impI)
  assume "sa_step e num_steps num_nodes graph k s = Inr s'"
  then obtain temp cand where c: "new_solution e num_nodes s = Inr cand"
    and a: "accept_or_reject e graph temp cand s = Inr s'"
    by (rule sa_step_Inr)
  from c accept_or_reject_cases(1) [OF a]
  show "\<exists>cand. new_solution e num_nodes s = Inr cand \<and>
              scores s' = scores s @ [obj_maxcut e cand graph]" by blast
next
  assume r: "simulated_annealing e a num_steps graph = Inr (score, solution, trace)"
  then obtain t where t: "state_after e num_steps graph (nat num_steps) = Inr t"
    and tr: "trace = scores t"
    by (rule simulated_annealing_Inr)
  from state_after_invariant [OF t] tr show len: "length trace = nat num_steps" by simp
  assume "0 \<le> num_steps"
  with len show "int (length trace) = num_steps" by simp
qed

theorem trace_length_witness:
  "sa_step (demo_env (\<lambda>i. i) (1/2)) 2 4 cycle4 (Suc 0) tie_state =
     Inr \<lparr>curr_solution = [1, 0, 1, 1], curr_score = 2, scores = [2, 0], np_pos = 2,
          py_pos = 2, obj_calls = 3\<rparr> \<and>
   simulated_annealing (demo_env (\<lambda>i. i) (1/2)) 4 2 cycle4 = Inr (2, [1, 0, 1, 1], [2, 0]) \<and>
   (0::int) \<le> 2 \<and>
   (\<exists>cand. new_solution (demo_env (\<lambda>i. i) (1/2)) 4 tie_state = Inr cand \<and>
       [2, 0] = scores tie_state @ [obj_maxcut (demo_env (\<lambda>i. i) (1/2)) cand cycle4]) \<and>
   length [2, 0 :: real] = nat 2 \<and> int (length [2, 0 :: real]) = 2"
proof -
  note inst = trace_length [of "demo_env (\<lambda>i. i) (1/2)" 2 4 cycle4 "Suc 0" tie_state
      "\<lparr>curr_solution = [1, 0, 1, 1], curr_score = 2, scores = [2, 0], np_pos = 2,
          py_pos = 2, obj_calls = 3\<rparr>" 4 2 "[1, 0, 1, 1]" "[2, 0]"]
  have a: "\<exists>cand. new_solution (demo_env (\<lambda>i. i) (1/2)) 4 tie_state = Inr cand \<and>
       [2, 0] = scores tie_state @ [obj_maxcut (demo_env (\<lambda>i. i) (1/2)) cand cycle4]"
    using inst sa_step_tie_state by simp
  have b: "length [2, 0 :: real] = nat 2 \<and> int (length [2, 0 :: real]) = 2"
    using inst simulated_annealing_cycle4 [of 4] by simp
  show ?thesis
    using a b sa_step_tie_state simulated_annealing_cycle4 [of 4] by simp
qed

subsection \<open>Score consistency\<close>

text \<open>
  Claim C8. At initialization (\<open>m = 0\<close>) and after every number \<open>m\<close> of steps, \<open>curr_score\<close>
  is the evaluator's value of \<open>curr_solution\<close>; a step either sets both to the candidate and
  its score or leaves both alone; and the \<open>init_score\<close> and \<open>curr_score\<close> that
  \<open>temperature_decay\<close> returns are the evaluator's values of the initial and of the returned
  solution.
\<close>

theorem score_consistency:
  "(state_after e num_steps graph m = Inr s \<longrightarrow>
      curr_score s = obj_maxcut e (curr_solution s) graph) \<and>
   (sa_step e num_steps num_nodes graph k t = Inr t' \<longrightarrow>
      (\<exists>cand. new_solution e num_nodes t = Inr cand \<and>
         (curr_solution t' = cand \<and> curr_score t' = obj_maxcut e cand graph \<or>
          curr_solution t' = curr_solution t \<and> curr_score t' = curr_score t))) \<and>
   (temperature_decay e num_steps graph = Inr (trace, init_score, score, solution) \<longrightarrow>
      init_score = obj_maxcut e (init_solution graph) graph \<and>
      score = obj_maxcut e solution graph)"
proof (intro conjI impI)
  assume "state_after e num_steps graph m = Inr s"
  from state_after_invariant [OF this]
  show "curr_score s = obj_maxcut e (curr_solution s) graph" by simp
next
  assume "sa_step e num_steps num_nodes graph k t = Inr t'"
  then obtain temp cand where c: "new_solution e num_nodes t = Inr cand"
    and a: "accept_or_reject e graph temp cand t = Inr t'"
    by (rule sa_step_Inr)
  from c accept_or_reject_cases(5) [OF a]
  show "\<exists>cand. new_solution e num_nodes t = Inr cand \<and>
         (curr_solution t' = cand \<and> curr_score t' = obj_maxcut e cand graph \<or>
          curr_solution t' = curr_solution t \<and> curr_score t' = curr_score t)" by blast
next
  assume r: "temperature_decay e num_steps graph = Inr (trace, init_score, score, solution)"
  then obtain u where u: "state_after e num_steps graph (nat num_steps) = Inr u"
    and eqs: "init_score = curr_score (init_state e graph)" "score = curr_score u"
      "solution = curr_solution u"
    by (auto simp: temperature_decay_def final_state_def split: sum.splits)
  show "init_score = obj_maxcut e (init_solution graph) graph"
    by (simp add: eqs init_state_def)
  from state_after_invariant [OF u] eqs show "score = obj_maxcut e solution graph" by simp
qed

theorem score_consistency_witness:
  "state_after (demo_env (\<lambda>i. i) (1/2)) 2 cycle4 (Suc 0) = Inr tie_state \<and>
   sa_step (demo_env (\<lambda>i. i) (1/2)) 2 4 cycle4 0 (init_state (demo_env (\<lambda>i. i) (1/2)) cycle4)
     = Inr tie_state \<and>
   temperature_decay (demo_env (\<lambda>i. i) (1/2)) 2 cycle4 = Inr ([2, 0], 2, 2, [1, 0, 1, 1]) \<and>
   curr_score tie_state = obj_maxcut (demo_env (\<lambda>i. i) (1/2)) (curr_solution tie_state) cycle4 \<and>
   2 = obj_maxcut (demo_env (\<lambda>i. i) (1/2)) (init_solution cycle4) cycle4 \<and>
   2 = obj_maxcut (demo_env (\<lambda>i. i) (1/2)) [1, 0, 1, 1] cycle4"
proof -
  note inst = score_consistency [of "demo_env (\<lambda>i. i) (1/2)" 2 cycle4 "Suc 0" tie_state 4 0
      "init_state (demo_env (\<lambda>i. i) (1/2)) cycle4" tie_state "[2, 0]" 2 2 "[1, 0, 1, 1]"]
  have a: "curr_score tie_state
      = obj_maxcut (demo_env (\<lambda>i. i) (1/2)) (curr_solution tie_state) cycle4"
    using inst state_after_1_cycle4 by blast
  have b: "2 = obj_maxcut (demo_env (\<lambda>i. i) (1/2)) (init_solution cycle4) cycle4 \<and>
      2 = obj_maxcut (demo_env (\<lambda>i. i) (1/2)) [1, 0, 1, 1] cycle4"
    using inst temperature_decay_cycle4 by blast
  show ?thesis
    using a b state_after_1_cycle4 sa_step_init_cycle4 temperature_decay_cycle4 by blast
qed

subsection \<open>Parameters that the spec calls invalid\<close>

lemma init_solution_no_nodes: "number_of_nodes g = 0 \<Longrightarrow> init_solution g = []"
  by (simp add: init_solution_def)

lemma length_init_solution_even:
  "even (number_of_nodes g) \<Longrightarrow> length (init_solution g) = number_of_nodes g"
  by (auto simp: length_init_solution)

lemma simulated_annealing_no_steps:
  "num_steps \<le> 0 \<Longrightarrow>
     simulated_annealing e a num_steps graph =
       Inr (obj_maxcut e (init_solution graph) graph, init_solution graph, [])"
  by (simp add: simulated_annealing_def temperature_decay_def final_state_def state_after_0
      init_state_def)

lemma sa_loop_ValueError:
  "init_temperature e \<noteq> None \<Longrightarrow> n \<noteq> 0 \<Longrightarrow> ks \<noteq> [] \<Longrightarrow>
     sa_loop e n 0 g ks s = Inl ValueError"
  by (cases ks) (auto simp: sa_step_def temperature_def new_solution_def randint_def)

text \<open>
  Claim C4, as the code has it. Nothing is validated. With \<open>num_steps \<le> 0\<close>, on a graph
  with an even number of nodes (the empty graph among them), the initial solution has one
  label per node, the loop body never runs and the call returns normally, with the initial
  score, the initial solution and an empty trace. With \<open>num_steps \<ge> 1\<close>, the empty graph
  (\<open>number_of_nodes = 0\<close>) and the module-level \<open>init_temperature\<close> bound, the call fails, but
  only inside the first iteration and after the initial evaluation, when
  \<open>np.random.randint(0, 0)\<close> raises \<open>ValueError\<close>.
\<close>

theorem no_parameter_validation:
  "(num_steps \<le> 0 \<and> even (number_of_nodes graph) \<longrightarrow>
      length (init_solution graph) = number_of_nodes graph \<and>
      simulated_annealing e a num_steps graph =
        Inr (obj_maxcut e (init_solution graph) graph, init_solution graph, [])) \<and>
   (0 < num_steps \<and> number_of_nodes graph = 0 \<and> init_temperature e \<noteq> None \<longrightarrow>
      simulated_annealing e a num_steps graph = Inl ValueError)"
proof (intro conjI impI)
  assume "num_steps \<le> 0 \<and> even (number_of_nodes graph)"
  then show "length (init_solution graph) = number_of_nodes graph"
    by (simp add: length_init_solution_even)
next
  assume "num_steps \<le> 0 \<and> even (number_of_nodes graph)"
  then show "simulated_annealing e a num_steps graph =
        Inr (obj_maxcut e (init_solution graph) graph, init_solution graph, [])"
    by (simp add: simulated_annealing_no_steps)
next
  assume h: "0 < num_steps \<and> number_of_nodes graph = 0 \<and> init_temperature e \<noteq> None"
  then have "init_solution graph = []" by (simp add: init_solution_no_nodes)
  moreover from h have "[0..<nat num_steps] \<noteq> []" by simp
  ultimately have "state_after e num_steps graph (nat num_steps) = Inl ValueError"
    using h by (simp add: state_after_def sa_loop_ValueError)
  then show "simulated_annealing e a num_steps graph = Inl ValueError"
    by (simp add: simulated_annealing_def temperature_decay_def final_state_def)
qed

lemma obj_init_cycle4: "obj_maxcut (demo_env d u) [0, 0, 1, 1] cycle4 = 2"
  by (simp add: demo_env_def cut_value_cycle4)

lemma init_solution_empty_graph: "init_solution empty_graph = []"
  by (simp add: init_solution_def empty_graph_def)

lemma obj_empty_graph: "obj_maxcut (demo_env d u) [] empty_graph = 0"
  by (simp add: demo_env_def cut_value_def empty_graph_def)

theorem no_parameter_validation_witness:
  "(0::int) \<le> 0 \<and> even (number_of_nodes cycle4) \<and>
   length (init_solution cycle4) = number_of_nodes cycle4 \<and>
   simulated_annealing (demo_env (\<lambda>i. i) (1/2)) 4 0 cycle4 = Inr (2, [0, 0, 1, 1], []) \<and>
   (0::int) < 5 \<and> number_of_nodes empty_graph = 0 \<and>
   init_temperature (demo_env (\<lambda>i. i) (1/2)) \<noteq> None \<and>
   simulated_annealing (demo_env (\<lambda>i. i) (1/2)) 4 5 empty_graph = Inl ValueError"
proof -
  have h1: "(0::int) \<le> 0 \<and> even (number_of_nodes cycle4)"
    by (simp add: cycle4_def)
  have h2: "(0::int) < 5 \<and> number_of_nodes empty_graph = 0 \<and>
      init_temperature (demo_env (\<lambda>i. i) (1/2)) \<noteq> None"
    by (simp add: empty_graph_def demo_env_def)
  from no_parameter_validation [of 0 cycle4 "demo_env (\<lambda>i. i) (1/2)" 4] h1
  have a: "length (init_solution cycle4) = number_of_nodes cycle4 \<and>
      simulated_annealing (demo_env (\<lambda>i. i) (1/2)) 4 0 cycle4 = Inr (2, [0, 0, 1, 1], [])"
    by (simp add: init_solution_cycle4 obj_init_cycle4)
  from no_parameter_validation [of 5 empty_graph "demo_env (\<lambda>i. i) (1/2)" 4] h2
  have b: "simulated_annealing (demo_env (\<lambda>i. i) (1/2)) 4 5 empty_graph = Inl ValueError"
    by blast
  from h1 h2 a b show ?thesis by blast
qed

text \<open>
  Claim C4, as stated, fails: calls with \<open>num_steps = 0\<close>, with \<open>num_steps = -3\<close> and with
  the empty graph complete normally.
\<close>

theorem invalid_parameters_accepted:
  "simulated_annealing (demo_env (\<lambda>i. i) (1/2)) 4 0 cycle4 = Inr (2, [0, 0, 1, 1], []) \<and>
   simulated_annealing (demo_env (\<lambda>i. i) (1/2)) 4 (- 3) cycle4 = Inr (2, [0, 0, 1, 1], []) \<and>
   simulated_annealing (demo_env (\<lambda>i. i) (1/2)) 4 0 empty_graph = Inr (0, [], [])"
  by (simp add: simulated_annealing_no_steps init_solution_cycle4 obj_init_cycle4
      init_solution_empty_graph obj_empty_graph)

subsection \<open>Determinism\<close>

lemma sa_step_cong:
  assumes "init_temperature e1 = init_temperature e2" and "obj_maxcut e1 = obj_maxcut e2"
    and "np_draws e1 (np_pos s) = np_draws e2 (np_pos s)"
    and "py_draws e1 (py_pos s) = py_draws e2 (py_pos s)"
  shows "sa_step e1 n nn g k s = sa_step e2 n nn g k s"
proof -
  have t: "temperature e1 k n = temperature e2 k n"
    by (simp add: temperature_def assms(1))
  have c: "new_solution e1 nn s = new_solution e2 nn s"
    by (simp add: new_solution_def assms(3))
  have a: "accept_or_reject e1 g temp cand s = accept_or_reject e2 g temp cand s" for temp cand
    by (simp add: accept_or_reject_def Let_def assms(2,4))
  show ?thesis unfolding sa_step_def t c a ..
qed

lemma state_after_cong:
  assumes "init_temperature e1 = init_temperature e2" and "obj_maxcut e1 = obj_maxcut e2"
    and "\<forall>i<b. np_draws e1 i = np_draws e2 i" and "\<forall>i<b. py_draws e1 i = py_draws e2 i"
  shows "m \<le> b \<Longrightarrow> state_after e1 n g m = state_after e2 n g m"
proof (induction m)
  case 0
  show ?case by (simp add: state_after_0 init_state_def assms(2))
next
  case (Suc m)
  then have ih: "state_after e1 n g m = state_after e2 n g m" and mb: "m < b" by simp_all
  show ?case
  proof (cases "state_after e2 n g m")
    case (Inl err)
    with ih show ?thesis by (simp add: state_after_Suc)
  next
    case (Inr s)
    from state_after_invariant [OF Inr] have "np_pos s = m" "py_pos s \<le> m" by simp_all
    with mb assms(3,4) have "np_draws e1 (np_pos s) = np_draws e2 (np_pos s)"
      "py_draws e1 (py_pos s) = py_draws e2 (py_pos s)" by simp_all
    from sa_step_cong [OF assms(1,2) this] ih Inr show ?thesis
      by (simp add: state_after_Suc)
  qed
qed

text \<open>
  Claim C9, as the code has it. \<open>simulated_annealing\<close> has no seed parameter; the result
  depends on the state of the two global generators. Two runs with the same \<open>num_steps\<close>
  and graph, the same module-level \<open>init_temperature\<close> and evaluator, and generators that
  deliver the same first \<open>num_steps\<close> values of \<open>randint\<close> and of \<open>random.random\<close>, return
  the same \<open>(curr_score, curr_solution, scores)\<close> or raise the same exception.
\<close>

theorem determined_by_draws:
  assumes "init_temperature e1 = init_temperature e2" and "obj_maxcut e1 = obj_maxcut e2"
    and "\<forall>i < nat num_steps. np_draws e1 i = np_draws e2 i"
    and "\<forall>i < nat num_steps. py_draws e1 i = py_draws e2 i"
  shows "simulated_annealing e1 a1 num_steps graph = simulated_annealing e2 a2 num_steps graph"
proof -
  have "state_after e1 num_steps graph (nat num_steps)
      = state_after e2 num_steps graph (nat num_steps)"
    using assms by (intro state_after_cong [where b = "nat num_steps"]) simp_all
  moreover have "init_state e1 graph = init_state e2 graph"
    by (simp add: init_state_def assms(2))
  ultimately show ?thesis
    by (simp only: simulated_annealing_def temperature_decay_def final_state_def)
qed

text \<open>
  Two generators that agree on their first two values and differ afterwards, in a run of
  two steps.
\<close>

theorem determined_by_draws_witness:
  "init_temperature (demo_env (\<lambda>i. i) (1/2))
     = init_temperature (demo_env (\<lambda>i. if i < 2 then i else 7) (1/2)) \<and>
   obj_maxcut (demo_env (\<lambda>i. i) (1/2))
     = obj_maxcut (demo_env (\<lambda>i. if i < 2 then i else 7) (1/2)) \<and>
   np_draws (demo_env (\<lambda>i. i) (1/2)) 0
     = np_draws (demo_env (\<lambda>i. if i < 2 then i else 7) (1/2)) 0 \<and>
   np_draws (demo_env (\<lambda>i. i) (1/2)) 1
     = np_draws (demo_env (\<lambda>i. if i < 2 then i else 7) (1/2)) 1 \<and>
   np_draws (demo_env (\<lambda>i. i) (1/2)) 2 = 2 \<and>
   np_draws (demo_env (\<lambda>i. if i < 2 then i else 7) (1/2)) 2 = 7 \<and>
   py_draws (demo_env (\<lambda>i. i) (1/2)) 0
     = py_draws (demo_env (\<lambda>i. if i < 2 then i else 7) (1/2)) 0 \<and>
   py_draws (demo_env (\<lambda>i. i) (1/2)) 1
     = py_draws (demo_env (\<lambda>i. if i < 2 then i else 7) (1/2)) 1 \<and>
   simulated_annealing (demo_env (\<lambda>i. i) (1/2)) 4 2 cycle4
     = simulated_annealing (demo_env (\<lambda>i. if i < 2 then i else 7) (1/2)) 9 2 cycle4 \<and>
   simulated_annealing (demo_env (\<lambda>i. if i < 2 then i else 7) (1/2)) 9 2 cycle4
     = Inr (2, [1, 0, 1, 1], [2, 0])"
proof -
  let ?e1 = "demo_env (\<lambda>i. i) (1/2)" and ?e2 = "demo_env (\<lambda>i. if i < 2 then i else 7) (1/2)"
  have h1: "init_temperature ?e1 = init_temperature ?e2" by (simp add: demo_env_def)
  have h2: "obj_maxcut ?e1 = obj_maxcut ?e2" by (simp add: demo_env_def)
  have h3: "\<forall>i < nat 2. np_draws ?e1 i = np_draws ?e2 i" by (simp add: demo_env_def)
  have h4: "\<forall>i < nat 2. py_draws ?e1 i = py_draws ?e2 i" by (simp add: demo_env_def)
  have d: "np_draws ?e1 0 = np_draws ?e2 0" "np_draws ?e1 1 = np_draws ?e2 1"
    "np_draws ?e1 2 = 2" "np_draws ?e2 2 = 7"
    "py_draws ?e1 0 = py_draws ?e2 0" "py_draws ?e1 1 = py_draws ?e2 1"
    by (simp_all add: demo_env_def)
  note eq = determined_by_draws [OF h1 h2 h3 h4, of 4 cycle4 9]
  with simulated_annealing_cycle4 [of 4]
  have "simulated_annealing ?e2 9 2 cycle4 = Inr (2, [1, 0, 1, 1], [2, 0])" by simp
  with h1 h2 d eq show ?thesis by blast
qed

text \<open>
  Claim C9, as stated, fails: no argument of the call fixes the randomness. Two calls with
  the same arguments, on generators in different states, return different solutions.
\<close>

theorem result_depends_on_generator_state:
  "simulated_annealing (demo_env (\<lambda>i. 0) (1/2)) 4 1 cycle4 = Inr (2, [1, 0, 1, 1], [2]) \<and>
   simulated_annealing (demo_env (\<lambda>i. 3) (1/2)) 4 1 cycle4 = Inr (2, [0, 0, 1, 0], [2]) \<and>
   simulated_annealing (demo_env (\<lambda>i. 0) (1/2)) 4 1 cycle4
     \<noteq> simulated_annealing (demo_env (\<lambda>i. 3) (1/2)) 4 1 cycle4"
proof -
  have n: "nat 1 = Suc 0" by simp
  have t: "temperature (demo_env d (1/2)) 0 1 = Inr 0" for d
    by (simp add: temperature_def temperature_of_def demo_env_def)
  have c0: "new_solution (demo_env (\<lambda>i. 0) (1/2)) 4 (init_state (demo_env (\<lambda>i. 0) (1/2)) cycle4)
      = Inr [1, 0, 1, 1]"
    by (simp add: init_state_cycle4) (simp add: new_solution_def randint_def demo_env_def)
  have c1: "new_solution (demo_env (\<lambda>i. 3) (1/2)) 4 (init_state (demo_env (\<lambda>i. 3) (1/2)) cycle4)
      = Inr [0, 0, 1, 0]"
    by (simp add: init_state_cycle4) (simp add: new_solution_def randint_def demo_env_def)
  have a0: "accept_or_reject (demo_env (\<lambda>i. 0) (1/2)) cycle4 0 [1, 0, 1, 1]
        (init_state (demo_env (\<lambda>i. 0) (1/2)) cycle4) = Inr tie_state"
    by (simp add: accept_or_reject_def Let_def init_state_cycle4 tie_state_def)
      (simp add: demo_env_def cut_value_cycle4)
  have a1: "accept_or_reject (demo_env (\<lambda>i. 3) (1/2)) cycle4 0 [0, 0, 1, 0]
        (init_state (demo_env (\<lambda>i. 3) (1/2)) cycle4) = Inr (tie_state\<lparr>curr_solution := [0, 0, 1, 0]\<rparr>)"
    by (simp add: accept_or_reject_def Let_def init_state_cycle4 tie_state_def)
      (simp add: demo_env_def cut_value_cycle4)
  have s0: "state_after (demo_env (\<lambda>i. 0) (1/2)) 1 cycle4 (Suc 0) = Inr tie_state"
    by (simp only: state_after_Suc state_after_0 sum.case length_init_solution_cycle4)
      (simp add: sa_step_def t c0 a0)
  have s1: "state_after (demo_env (\<lambda>i. 3) (1/2)) 1 cycle4 (Suc 0)
      = Inr (tie_state\<lparr>curr_solution := [0, 0, 1, 0]\<rparr>)"
    by (simp only: state_after_Suc state_after_0 sum.case length_init_solution_cycle4)
      (simp add: sa_step_def t c1 a1)
  have r0: "simulated_annealing (demo_env (\<lambda>i. 0) (1/2)) 4 1 cycle4 = Inr (2, [1, 0, 1, 1], [2])"
    by (simp only: simulated_annealing_def temperature_decay_def final_state_def n s0 sum.case)
      (simp add: tie_state_def)
  have r1: "simulated_annealing (demo_env (\<lambda>i. 3) (1/2)) 4 1 cycle4 = Inr (2, [0, 0, 1, 0], [2])"
    by (simp only: simulated_annealing_def temperature_decay_def final_state_def n s1 sum.case)
      (simp add: tie_state_def)
  show ?thesis by (simp add: r0 r1)
qed

end
